theory Spec2Isabelle
  imports Complex_Main
begin

section \<open>Python values, exceptions and effects\<close>

text \<open>
  The three source files are Python. An exception is a value of \<open>exn\<close>; a raise is
  \<open>Inl\<close> of it. \<open>APIError\<close> is the provider library's failure class: it is built
  from the provider's message, and \<open>str(e)\<close> gives that message back. \<open>OtherError\<close>
  stands for every exception class the program does not name (class name, message),
  for example a transport failure below the provider library.
\<close>

datatype exn =
    APIError string
  | ValueError string
  | KeyError string
  | TypeError string
  | ImportError string
  | SystemExit int
  | OtherError string string

text \<open>\<open>repr\<close> of a text without quotes, backslashes or control characters.\<close>

definition py_repr :: "string \<Rightarrow> string" where
  "py_repr s = CHR 0x27 # s @ [CHR 0x27]"

text \<open>\<open>str(e)\<close>: the message; for a \<open>KeyError\<close> the \<open>repr\<close> of the missing key.\<close>

fun str_exn :: "exn \<Rightarrow> string" where
  "str_exn (APIError m) = m"
| "str_exn (ValueError m) = m"
| "str_exn (KeyError k) = py_repr k"
| "str_exn (TypeError m) = m"
| "str_exn (ImportError m) = m"
| "str_exn (SystemExit c) = []"
| "str_exn (OtherError c m) = m"

text \<open>
  \<open>except Exception\<close> catches every class here but \<open>SystemExit\<close>, which derives from
  \<open>BaseException\<close> only.
\<close>

fun is_Exception :: "exn \<Rightarrow> bool" where
  "is_Exception (SystemExit c) = False"
| "is_Exception e = True"

fun is_APIError :: "exn \<Rightarrow> bool" where
  "is_APIError (APIError m) = True"
| "is_APIError e = False"

text \<open>
  The values the program builds and hands to its front-ends. A dict is an association
  list in insertion order. The type \<open>'f\<close> is the float type: binary floating point is
  not modelled, the program is verified for every implementation of the float
  operations it uses (see \<open>float_impl\<close> below).
\<close>

datatype 'f pyval =
    PNone
  | PBool bool
  | PStr string
  | PFloat 'f
  | PList "'f pyval list"
  | PDict "(string \<times> 'f pyval) list"

text \<open>
  The calls that reach the provider, in the order they are issued, and the texts handed
  to \<open>print\<close>, one entry per call of \<open>print\<close>.
\<close>

datatype call =
    GetAccount
  | ListPositions
  | SubmitOrder string int string string string
  | ListOrders string int

record world =
  calls :: "call list"
  stdout :: "string list"

type_synonym 'a io = "world \<Rightarrow> (exn + 'a) \<times> world"

definition io_return :: "'a \<Rightarrow> 'a io" where
  "io_return x = (\<lambda>w. (Inr x, w))"

definition io_raise :: "exn \<Rightarrow> 'a io" where
  "io_raise e = (\<lambda>w. (Inl e, w))"

definition io_lift :: "exn + 'a \<Rightarrow> 'a io" where
  "io_lift r = (\<lambda>w. (r, w))"

definition io_bind :: "'a io \<Rightarrow> ('a \<Rightarrow> 'b io) \<Rightarrow> 'b io" where
  "io_bind m f = (\<lambda>w. case m w of (Inl e, w') \<Rightarrow> (Inl e, w') | (Inr x, w') \<Rightarrow> f x w')"

text \<open>
  \<open>try: m except C as e: h e\<close>. The handler table \<open>h\<close> gives \<open>None\<close> for an
  exception the \<open>except\<close> clause does not match, which then goes on propagating.
\<close>

definition io_try :: "'a io \<Rightarrow> (exn \<Rightarrow> 'a io option) \<Rightarrow> 'a io" where
  "io_try m h = (\<lambda>w. case m w of
       (Inl e, w') \<Rightarrow> (case h e of None \<Rightarrow> (Inl e, w') | Some k \<Rightarrow> k w')
     | (Inr x, w') \<Rightarrow> (Inr x, w'))"

definition print :: "string \<Rightarrow> unit io" where
  "print s = (\<lambda>w. (Inr (), w\<lparr>stdout := stdout w @ [s]\<rparr>))"

text \<open>A provider call: it is logged, then answers or raises as the provider decides.\<close>

definition provider_call :: "call \<Rightarrow> exn + 'a \<Rightarrow> 'a io" where
  "provider_call c r = (\<lambda>w. (r, w\<lparr>calls := calls w @ [c]\<rparr>))"

text \<open>A computation that issues no provider call, whatever else it does.\<close>

definition keeps_calls :: "'a io \<Rightarrow> bool" where
  "keeps_calls m = (\<forall>w. calls (snd (m w)) = calls w)"

text \<open>
  A text is a list of characters, and padding counts characters as Python counts code
  points. The markers of the printed lines are the exception: each is written as the
  bytes of its UTF-8 encoding. They only ever stand at the head of a printed line and
  are never measured or padded.
\<close>

definition red_circle :: string where
  "red_circle = [CHR 0xF0, CHR 0x9F, CHR 0x94, CHR 0xB4]"



definition shopping_cart :: string where
  "shopping_cart = [CHR 0xF0, CHR 0x9F, CHR 0x9B, CHR 0x92]"

definition check_mark :: string where
  "check_mark = [CHR 0xE2, CHR 0x9C, CHR 0x85]"

definition page_facing_up :: string where
  "page_facing_up = [CHR 0xF0, CHR 0x9F, CHR 0x93, CHR 0x84]"

definition nl :: string where
  "nl = [CHR 0x0A]"

section \<open>The credential resolver: \<open>setup_api_client\<close>\<close>

text \<open>
  \<open>os.environ\<close> is a map from names to values. \<open>os.environ[k]\<close> raises
  \<open>KeyError(k)\<close> for an unset name; \<open>os.environ.get(k, d)\<close> gives \<open>d\<close> instead.
\<close>

type_synonym environ = "string \<Rightarrow> string option"

definition environ_getitem :: "environ \<Rightarrow> string \<Rightarrow> exn + string" where
  "environ_getitem env k = (case env k of None \<Rightarrow> Inl (KeyError k) | Some v \<Rightarrow> Inr v)"

definition environ_get :: "environ \<Rightarrow> string \<Rightarrow> string \<Rightarrow> string" where
  "environ_get env k d = (case env k of None \<Rightarrow> d | Some v \<Rightarrow> v)"

text \<open>
  The arguments of the provider library's \<open>REST\<close> constructor. The constructor itself
  is outside the repository: it is the parameter \<open>REST\<close> of \<open>setup_api_client\<close>, and
  it only stores what it is given (no network round trip).
\<close>

record credentials =
  key_id :: string
  secret_key :: string
  base_url :: string

text \<open>
  \<^verbatim>\<open>
  try:
      api_key = os.environ['APCA_API_KEY_ID']
      secret_key = os.environ['APCA_API_SECRET_KEY']
      base_url = os.environ.get('APCA_API_BASE_URL', 'https://paper-api.alpaca.markets')
  except KeyError as e:
      print(f"... Critical Error: Environment variable {e} not set.")
      sys.exit(1)
  return REST(key_id=api_key, secret_key=secret_key, base_url=URL(base_url))
  \<close>
\<close>

definition read_credentials :: "environ \<Rightarrow> credentials io" where
  "read_credentials env =
     io_bind (io_lift (environ_getitem env ''APCA_API_KEY_ID'')) (\<lambda>api_key.
     io_bind (io_lift (environ_getitem env ''APCA_API_SECRET_KEY'')) (\<lambda>secret.
     io_return \<lparr>key_id = api_key, secret_key = secret,
       base_url = environ_get env ''APCA_API_BASE_URL'' ''https://paper-api.alpaca.markets''\<rparr>))"

definition missing_variable_message :: "exn \<Rightarrow> string" where
  "missing_variable_message e =
     red_circle @ '' Critical Error: Environment variable '' @ str_exn e @ '' not set.''"

definition setup_api_client :: "(credentials \<Rightarrow> 'api) \<Rightarrow> environ \<Rightarrow> 'api io" where
  "setup_api_client REST env =
     io_bind
       (io_try (read_credentials env)
          (\<lambda>e. case e of
             KeyError k \<Rightarrow> Some (io_bind (print (missing_variable_message e))
                                   (\<lambda>_. io_raise (SystemExit 1)))
           | _ \<Rightarrow> None))
       (\<lambda>c. io_return (REST c))"

section \<open>Format specifiers of f-string fields\<close>

text \<open>
  A field \<open>{v:spec}\<close> of an f-string is \<open>format(v, spec)\<close>. The specifier is read by
  the interpreter when the field is evaluated, in this order: fill and alignment, sign,
  \<open>z\<close>, \<open>#\<close>, zero padding, width, grouping, precision, and at most one character
  of type. What is left over after the precision, if longer than one character, makes
  the specifier invalid: the field raises \<open>ValueError\<close>.
\<close>

record format_spec =
  fs_fill :: char
  fs_align :: "char option"
  fs_sign :: "char option"
  fs_no_neg_0 :: bool
  fs_alternate :: bool
  fs_width :: "nat option"
  fs_thousands :: "char option"
  fs_precision :: "nat option"
  fs_type :: "char option"

definition is_digit :: "char \<Rightarrow> bool" where
  "is_digit c = (c \<in> set ''0123456789'')"

definition is_alignment_token :: "char \<Rightarrow> bool" where
  "is_alignment_token c = (c \<in> set ''<>=^'')"

definition is_sign_element :: "char \<Rightarrow> bool" where
  "is_sign_element c = (c \<in> set '' +-'')"

definition nat_of_digits :: "string \<Rightarrow> nat" where
  "nat_of_digits ds = foldl (\<lambda>n c. 10 * n + (of_char c - 48)) 0 ds"

fun take_char :: "(char \<Rightarrow> bool) \<Rightarrow> string \<Rightarrow> char option \<times> string" where
  "take_char P [] = (None, [])"
| "take_char P (c # r) = (if P c then (Some c, r) else (None, c # r))"

definition take_integer :: "string \<Rightarrow> nat option \<times> string" where
  "take_integer s =
     (let ds = takeWhile is_digit s
      in (if ds = [] then None else Some (nat_of_digits ds), dropWhile is_digit s))"

text \<open>Fill and alignment: (fill if given, alignment if given, rest).\<close>

fun take_fill_align :: "string \<Rightarrow> char option \<times> char option \<times> string" where
  "take_fill_align (f # a # r) =
     (if is_alignment_token a then (Some f, Some a, r)
      else if is_alignment_token f then (None, Some f, a # r)
      else (None, None, f # a # r))"
| "take_fill_align [a] = (if is_alignment_token a then (None, Some a, []) else (None, None, [a]))"
| "take_fill_align [] = (None, None, [])"

definition both_separators :: exn where
  "both_separators =
     ValueError (''Cannot specify both '' @ py_repr '','' @ '' and '' @ py_repr ''_'' @ ''.'')"

definition invalid_format_specifier :: "string \<Rightarrow> string \<Rightarrow> exn" where
  "invalid_format_specifier spec tyname =
     ValueError (''Invalid format specifier '' @ py_repr spec @
                 '' for object of type '' @ py_repr tyname)"

definition unknown_format_code :: "char \<Rightarrow> string \<Rightarrow> exn" where
  "unknown_format_code c tyname =
     ValueError (''Unknown format code '' @ py_repr [c] @
                 '' for object of type '' @ py_repr tyname)"

definition thousands_allowed :: "char \<Rightarrow> char option \<Rightarrow> bool" where
  "thousands_allowed sep ty =
     (case ty of
        None \<Rightarrow> True
      | Some t \<Rightarrow> t \<in> set ''defgEG%F'' \<or> (sep = CHR ''_'' \<and> t \<in> set ''boxX''))"

text \<open>
  \<open>default_type\<close> is \<open>s\<close> for a \<open>str\<close> and none for a \<open>float\<close>;
  \<open>numeric\<close> says that zero padding without an alignment means \<open>=\<close>.
\<close>

definition parse_format_spec ::
    "string \<Rightarrow> string \<Rightarrow> char option \<Rightarrow> bool \<Rightarrow> exn + format_spec" where
  "parse_format_spec spec tyname default_type numeric =
     (case take_fill_align spec of (fill, align, s1) \<Rightarrow>
      case take_char is_sign_element s1 of (sign, s2) \<Rightarrow>
      case take_char (\<lambda>c. c = CHR ''z'') s2 of (z, s3) \<Rightarrow>
      case take_char (\<lambda>c. c = CHR ''#'') s3 of (alt, s4) \<Rightarrow>
      case (if fill = None then take_char (\<lambda>c. c = CHR ''0'') s4 else (None, s4)) of (zero, s5) \<Rightarrow>
      case take_integer s5 of (width, s6) \<Rightarrow>
      case take_char (\<lambda>c. c = CHR '','') s6 of (comma, s7) \<Rightarrow>
      case take_char (\<lambda>c. c = CHR ''_'') s7 of (underscore, s8) \<Rightarrow>
      if comma \<noteq> None \<and> underscore \<noteq> None then Inl both_separators
      else if underscore \<noteq> None \<and> take 1 s8 = '','' then Inl both_separators
      else
      case take_char (\<lambda>c. c = CHR ''.'') s8 of (dot, s9) \<Rightarrow>
      case (if dot = None then (None, s9) else take_integer s9) of (precision, s10) \<Rightarrow>
      if dot \<noteq> None \<and> precision = None
        then Inl (ValueError ''Format specifier missing precision'')
      else if length s10 > 1 then Inl (invalid_format_specifier spec tyname)
      else
        let ty = (case s10 of [] \<Rightarrow> default_type | c # _ \<Rightarrow> Some c);
            sep = (if comma \<noteq> None then comma else underscore);
            fs = \<lparr>fs_fill = (case fill of Some f \<Rightarrow> f
                                | None \<Rightarrow> if zero \<noteq> None then CHR ''0'' else CHR '' ''),
                  fs_align = (if align = None \<and> zero \<noteq> None \<and> numeric
                              then Some (CHR ''='') else align),
                  fs_sign = sign, fs_no_neg_0 = (z \<noteq> None), fs_alternate = (alt \<noteq> None),
                  fs_width = width, fs_thousands = sep, fs_precision = precision,
                  fs_type = ty\<rparr>
        in (case sep of
              None \<Rightarrow> Inr fs
            | Some sp \<Rightarrow>
                if thousands_allowed sp ty then Inr fs
                else Inl (ValueError (''Cannot specify '' @ py_repr [sp] @ '' with '' @
                           py_repr (case ty of None \<Rightarrow> [] | Some t \<Rightarrow> [t]) @ ''.''))))"

text \<open>
  \<open>format(s, spec)\<close> for a \<open>str\<close>: an empty specifier gives \<open>s\<close>; otherwise
  the text is cut to the precision and padded to the width, to the left by default.
\<close>

definition pad_str :: "format_spec \<Rightarrow> string \<Rightarrow> string" where
  "pad_str fs s =
     (let t = (case fs_precision fs of None \<Rightarrow> s | Some p \<Rightarrow> take p s);
          total = (case fs_width fs of None \<Rightarrow> 0 | Some w \<Rightarrow> w) - length t;
          left = (case fs_align fs of
                    Some a \<Rightarrow> if a = CHR ''>'' then total
                              else if a = CHR ''^'' then total div 2 else 0
                  | None \<Rightarrow> 0)
      in replicate left (fs_fill fs) @ t @ replicate (total - left) (fs_fill fs))"

definition format_str :: "string \<Rightarrow> string \<Rightarrow> exn + string" where
  "format_str s spec =
     (if spec = [] then Inr s
      else case parse_format_spec spec ''str'' (Some CHR ''s'') False of
        Inl e \<Rightarrow> Inl e
      | Inr fs \<Rightarrow>
          if fs_type fs \<noteq> Some CHR ''s''
            then Inl (unknown_format_code (case fs_type fs of Some t \<Rightarrow> t | None \<Rightarrow> CHR ''s'') ''str'')
          else if fs_sign fs = Some CHR '' ''
            then Inl (ValueError ''Space not allowed in string format specifier'')
          else if fs_sign fs \<noteq> None
            then Inl (ValueError ''Sign not allowed in string format specifier'')
          else if fs_no_neg_0 fs
            then Inl (ValueError ''Negative zero coercion (z) not allowed in string format specifier'')
          else if fs_alternate fs
            then Inl (ValueError ''Alternate form (#) not allowed in string format specifier'')
          else if fs_align fs = Some CHR ''=''
            then Inl (ValueError (py_repr ''='' @ '' alignment not allowed in string format specifier''))
          else Inr (pad_str fs s))"

text \<open>
  The float type. Binary floating point is outside the model: the program is
  parametrised by the four operations it applies to floats. \<open>float_of_str\<close> is
  \<open>float(s)\<close> on a text, \<open>None\<close> where it raises \<open>ValueError\<close>; \<open>float_times\<close> is
  \<open>x * n\<close> for an integer \<open>n\<close>; \<open>float_truth\<close> is the truth value of \<open>x\<close>;
  \<open>float_render\<close> writes \<open>x\<close> under a specifier that has been read and accepted.
\<close>

record 'f float_impl =
  float_of_str :: "string \<Rightarrow> 'f option"
  float_times :: "'f \<Rightarrow> int \<Rightarrow> 'f"
  float_truth :: "'f \<Rightarrow> bool"
  float_render :: "format_spec \<Rightarrow> 'f \<Rightarrow> string"

definition py_float :: "'f float_impl \<Rightarrow> string \<Rightarrow> exn + 'f" where
  "py_float fl s =
     (case float_of_str fl s of
        None \<Rightarrow> Inl (ValueError (''could not convert string to float: '' @ py_repr s))
      | Some x \<Rightarrow> Inr x)"

definition format_float :: "'f float_impl \<Rightarrow> 'f \<Rightarrow> string \<Rightarrow> exn + string" where
  "format_float fl x spec =
     (case parse_format_spec spec ''float'' None True of
        Inl e \<Rightarrow> Inl e
      | Inr fs \<Rightarrow>
          (case fs_type fs of
             None \<Rightarrow> Inr (float_render fl fs x)
           | Some t \<Rightarrow> if t \<in> set ''eEfFgGn%'' then Inr (float_render fl fs x)
                       else Inl (unknown_format_code t ''float'')))"

section \<open>The provider: entities and calls\<close>

text \<open>
  What the provider library hands back. The numeric fields of an account and of a
  position arrive as texts, as the provider sends them; \<open>pattern_day_trader\<close> is a
  JSON boolean. A field of an order is a text or absent (\<open>None\<close>).
\<close>

record account =
  account_id :: string
  account_status :: string
  account_currency :: string
  account_portfolio_value :: string
  account_buying_power :: string
  account_cash :: string
  account_equity :: string
  account_pattern_day_trader :: bool

record position =
  position_symbol :: string
  position_qty :: string
  position_market_value :: string
  position_avg_entry_price :: string
  position_current_price :: string
  position_unrealized_pl :: string
  position_unrealized_plpc :: string

record order =
  order_id :: "string option"
  order_symbol :: "string option"
  order_qty :: "string option"
  order_side :: "string option"
  order_type :: "string option"
  order_status :: "string option"

text \<open>
  The client object \<open>api\<close>: each method answers or raises. \<open>api_submit_order\<close> takes
  symbol, qty, side, type and time in force; \<open>api_list_orders\<close> takes status and limit.
\<close>

record api =
  api_get_account :: "exn + account"
  api_list_positions :: "exn + position list"
  api_submit_order :: "string \<Rightarrow> int \<Rightarrow> string \<Rightarrow> string \<Rightarrow> string \<Rightarrow> exn + order"
  api_list_orders :: "string \<Rightarrow> int \<Rightarrow> exn + order list"

section \<open>Core logic: \<open>get_account_status_data\<close>, \<open>list_positions_data\<close>\<close>

text \<open>\<open>except APIError as e: return {"error": str(e)}\<close>, and nothing else is caught.\<close>

definition except_APIError :: "exn \<Rightarrow> 'f pyval io option" where
  "except_APIError e =
     (case e of
        APIError m \<Rightarrow> Some (io_return (PDict [(''error'', PStr (str_exn e))]))
      | _ \<Rightarrow> None)"

definition sum_bind :: "exn + 'a \<Rightarrow> ('a \<Rightarrow> exn + 'b) \<Rightarrow> exn + 'b" where
  "sum_bind r f = (case r of Inl e \<Rightarrow> Inl e | Inr x \<Rightarrow> f x)"

text \<open>
  The dict that \<open>get_account_status_data\<close> builds from the provider's account; its
  values are evaluated in the order written, and \<open>float\<close> is applied to four of them.
\<close>

definition account_dict :: "'f float_impl \<Rightarrow> account \<Rightarrow> exn + 'f pyval" where
  "account_dict fl account =
     sum_bind (py_float fl (account_portfolio_value account)) (\<lambda>portfolio_value.
     sum_bind (py_float fl (account_buying_power account)) (\<lambda>buying_power.
     sum_bind (py_float fl (account_cash account)) (\<lambda>cash.
     sum_bind (py_float fl (account_equity account)) (\<lambda>equity.
     Inr (PDict
       [(''id'', PStr (account_id account)),
        (''status'', PStr (account_status account)),
        (''currency'', PStr (account_currency account)),
        (''portfolio_value'', PFloat portfolio_value),
        (''buying_power'', PFloat buying_power),
        (''cash'', PFloat cash),
        (''equity'', PFloat equity),
        (''pattern_day_trader'', PBool (account_pattern_day_trader account))])))))"

text \<open>
  \<^verbatim>\<open>
  try:
      account = api.get_account()
      return { "id": account.id, ..., "pattern_day_trader": account.pattern_day_trader }
  except APIError as e:
      return {"error": str(e)}
  \<close>
\<close>

definition get_account_status_data :: "'f float_impl \<Rightarrow> api \<Rightarrow> 'f pyval io" where
  "get_account_status_data fl api =
     io_try
       (io_bind (provider_call GetAccount (api_get_account api)) (\<lambda>account.
        io_lift (account_dict fl account)))
       except_APIError"

text \<open>The dict of one position; its values are evaluated in the order written.\<close>

definition position_dict :: "'f float_impl \<Rightarrow> position \<Rightarrow> exn + 'f pyval" where
  "position_dict fl pos =
     sum_bind (py_float fl (position_qty pos)) (\<lambda>qty.
     sum_bind (py_float fl (position_market_value pos)) (\<lambda>market_value.
     sum_bind (py_float fl (position_avg_entry_price pos)) (\<lambda>avg_entry_price.
     sum_bind (py_float fl (position_current_price pos)) (\<lambda>current_price.
     sum_bind (py_float fl (position_unrealized_pl pos)) (\<lambda>unrealized_pl.
     sum_bind (py_float fl (position_unrealized_plpc pos)) (\<lambda>unrealized_plpc.
     Inr (PDict
       [(''symbol'', PStr (position_symbol pos)),
        (''qty'', PFloat qty),
        (''market_value'', PFloat market_value),
        (''avg_entry_price'', PFloat avg_entry_price),
        (''current_price'', PFloat current_price),
        (''unrealized_pl'', PFloat unrealized_pl),
        (''unrealized_plpc'', PFloat unrealized_plpc)])))))))"

text \<open>A list comprehension: the elements in order, stopping at the first raise.\<close>

fun comprehension :: "('a \<Rightarrow> exn + 'b) \<Rightarrow> 'a list \<Rightarrow> exn + 'b list" where
  "comprehension f [] = Inr []"
| "comprehension f (x # xs) =
     (case f x of
        Inl e \<Rightarrow> Inl e
      | Inr y \<Rightarrow> (case comprehension f xs of Inl e \<Rightarrow> Inl e | Inr ys \<Rightarrow> Inr (y # ys)))"

text \<open>
  \<^verbatim>\<open>
  try:
      positions = api.list_positions()
      return [ { "symbol": pos.symbol, ..., "unrealized_plpc": float(pos.unrealized_plpc) }
               for pos in positions ]
  except APIError as e:
      return {"error": str(e)}
  \<close>
\<close>

definition list_positions_data :: "'f float_impl \<Rightarrow> api \<Rightarrow> 'f pyval io" where
  "list_positions_data fl api =
     io_try
       (io_bind (provider_call ListPositions (api_list_positions api)) (\<lambda>positions.
        io_bind (io_lift (comprehension (position_dict fl) positions)) (\<lambda>rows.
        io_return (PList rows))))
       except_APIError"

section \<open>Operations on values used by the front-ends\<close>

text \<open>
  The front-ends apply a handful of dynamic operations to what the core functions
  return. Each is given here for every shape of value; \<open>Unmodelled\<close> marks the few
  combinations whose result needs a value this model has no constructor for (an
  \<open>int\<close>, the \<open>repr\<close> of a container). No run of the program reaches them: the core
  functions produce dicts and lists of dicts whose values are texts, floats and booleans.
\<close>

definition Unmodelled :: "string \<Rightarrow> exn" where
  "Unmodelled what = OtherError ''Unmodelled'' what"

fun is_prefix :: "string \<Rightarrow> string \<Rightarrow> bool" where
  "is_prefix [] s = True"
| "is_prefix (c # cs) [] = False"
| "is_prefix (c # cs) (d # ds) = (c = d \<and> is_prefix cs ds)"

fun is_substring :: "string \<Rightarrow> string \<Rightarrow> bool" where
  "is_substring k [] = (k = [])"
| "is_substring k (d # ds) = (is_prefix k (d # ds) \<or> is_substring k ds)"

text \<open>\<open>k in v\<close> for a text \<open>k\<close>: a key of a dict, an element of a list.\<close>

fun py_in :: "string \<Rightarrow> 'f pyval \<Rightarrow> exn + bool" where
  "py_in k (PDict d) = Inr (k \<in> set (map fst d))"
| "py_in k (PList l) = Inr (PStr k \<in> set l)"
| "py_in k (PStr s) = Inr (is_substring k s)"
| "py_in k PNone = Inl (TypeError (''argument of type '' @ py_repr ''NoneType'' @ '' is not iterable''))"
| "py_in k (PBool b) = Inl (TypeError (''argument of type '' @ py_repr ''bool'' @ '' is not iterable''))"
| "py_in k (PFloat x) = Inl (TypeError (''argument of type '' @ py_repr ''float'' @ '' is not iterable''))"

text \<open>\<open>v[k]\<close> for a text \<open>k\<close>.\<close>

fun py_getitem :: "'f pyval \<Rightarrow> string \<Rightarrow> exn + 'f pyval" where
  "py_getitem (PDict d) k = (case map_of d k of None \<Rightarrow> Inl (KeyError k) | Some v \<Rightarrow> Inr v)"
| "py_getitem (PList l) k = Inl (TypeError ''list indices must be integers or slices, not str'')"
| "py_getitem (PStr s) k = Inl (TypeError (''string indices must be integers, not '' @ py_repr ''str''))"
| "py_getitem PNone k = Inl (TypeError (py_repr ''NoneType'' @ '' object is not subscriptable''))"
| "py_getitem (PBool b) k = Inl (TypeError (py_repr ''bool'' @ '' object is not subscriptable''))"
| "py_getitem (PFloat x) k = Inl (TypeError (py_repr ''float'' @ '' object is not subscriptable''))"



text \<open>\<open>v * n\<close> for an integer literal \<open>n\<close>; a text or a list is repeated.\<close>

fun py_times :: "'f float_impl \<Rightarrow> 'f pyval \<Rightarrow> int \<Rightarrow> exn + 'f pyval" where
  "py_times fl (PFloat x) n = Inr (PFloat (float_times fl x n))"
| "py_times fl (PStr s) n = Inr (PStr (concat (replicate (nat n) s)))"
| "py_times fl (PList l) n = Inr (PList (concat (replicate (nat n) l)))"
| "py_times fl (PBool b) n = Inl (Unmodelled ''bool * int'')"
| "py_times fl PNone n = Inl (TypeError (''unsupported operand type(s) for *: '' @ py_repr ''NoneType'' @
                                      '' and '' @ py_repr ''int''))"
| "py_times fl (PDict d) n = Inl (TypeError (''unsupported operand type(s) for *: '' @ py_repr ''dict'' @
                                     '' and '' @ py_repr ''int''))"

text \<open>\<open>format(v, spec)\<close>, the value of the f-string field \<open>{v:spec}\<close>.\<close>

fun py_format :: "'f float_impl \<Rightarrow> 'f pyval \<Rightarrow> string \<Rightarrow> exn + string" where
  "py_format fl (PStr s) spec = format_str s spec"
| "py_format fl (PFloat x) spec = format_float fl x spec"
| "py_format fl PNone spec =
     (if spec = [] then Inr ''None''
      else Inl (TypeError ''unsupported format string passed to NoneType.__format__''))"
| "py_format fl (PBool b) spec =
     (if spec = [] then Inr (if b then ''True'' else ''False'')
      else Inl (Unmodelled ''format of a bool under a specifier''))"
| "py_format fl (PList l) spec =
     (if spec = [] then Inl (Unmodelled ''repr of a list'')
      else Inl (TypeError ''unsupported format string passed to list.__format__''))"
| "py_format fl (PDict d) spec =
     (if spec = [] then Inl (Unmodelled ''repr of a dict'')
      else Inl (TypeError ''unsupported format string passed to dict.__format__''))"

text \<open>
  An f-string is its parts from left to right, a literal or a field; the first field that
  raises ends the evaluation. \<open>field fl v k spec\<close> is the field \<open>{v[k]:spec}\<close>.
\<close>

fun fstring :: "(exn + string) list \<Rightarrow> exn + string" where
  "fstring [] = Inr []"
| "fstring (p # ps) =
     (case p of
        Inl e \<Rightarrow> Inl e
      | Inr s \<Rightarrow> (case fstring ps of Inl e \<Rightarrow> Inl e | Inr t \<Rightarrow> Inr (s @ t)))"

definition lit :: "string \<Rightarrow> exn + string" where
  "lit s = Inr s"

definition field :: "'f float_impl \<Rightarrow> 'f pyval \<Rightarrow> string \<Rightarrow> string \<Rightarrow> exn + string" where
  "field fl v k spec = sum_bind (py_getitem v k) (\<lambda>x. py_format fl x spec)"

text \<open>\<open>str(n)\<close> for an integer.\<close>

fun str_nat :: "nat \<Rightarrow> string" where
  "str_nat n =
     (if n < 10 then [char_of (48 + n)] else str_nat (n div 10) @ [char_of (48 + n mod 10)])"

definition str_int :: "int \<Rightarrow> string" where
  "str_int i = (if i < 0 then CHR ''-'' # str_nat (nat (- i)) else str_nat (nat i))"

text \<open>\<open>str(x)\<close> for a field of an order, and \<open>x or d\<close>: \<open>None\<close> and the empty text are false.\<close>

definition str_opt :: "string option \<Rightarrow> string" where
  "str_opt x = (case x of None \<Rightarrow> ''None'' | Some s \<Rightarrow> s)"

definition py_or :: "string option \<Rightarrow> string \<Rightarrow> string" where
  "py_or x d = (case x of None \<Rightarrow> d | Some s \<Rightarrow> if s = [] then d else s)"

section \<open>The command-line front-end\<close>

definition print_f :: "(exn + string) list \<Rightarrow> unit io" where
  "print_f parts = io_bind (io_lift (fstring parts)) print"


text \<open>
  One row of the positions table:
  \<^verbatim>\<open>
  pl_usd = f"{pos['unrealized_pl']:, .2f}"
  pl_pct = f"{pos['unrealized_plpc'] * 100:,.2f}%"
  print(f"{pos['symbol']:<10} {pos['qty']:<10} ${pos['avg_entry_price']:<17,.2f} "
        f"${pos['current_price']:<14,.2f} {pl_usd:<15} {pl_pct:<15}")
  \<close>
\<close>

definition position_line :: "'f float_impl \<Rightarrow> 'f pyval \<Rightarrow> exn + string" where
  "position_line fl pos =
     sum_bind (fstring [field fl pos ''unrealized_pl'' '', .2f'']) (\<lambda>pl_usd.
     sum_bind (fstring [sum_bind (sum_bind (py_getitem pos ''unrealized_plpc'')
                                    (\<lambda>v. py_times fl v 100))
                          (\<lambda>v. py_format fl v '',.2f''),
                        lit ''%'']) (\<lambda>pl_pct.
     fstring [field fl pos ''symbol'' ''<10'', lit '' '',
              field fl pos ''qty'' ''<10'', lit '' $'',
              field fl pos ''avg_entry_price'' ''<17,.2f'', lit '' $'',
              field fl pos ''current_price'' ''<14,.2f'', lit '' '',
              format_str pl_usd ''<15'', lit '' '',
              format_str pl_pct ''<15'']))"



text \<open>The parsed arguments of \<open>orders place\<close> and of \<open>orders list\<close>.\<close>

record order_args =
  args_symbol :: string
  args_qty :: int
  args_side :: string
  args_type :: string
  args_time_in_force :: string

record list_args =
  args_status :: string
  args_limit :: int

text \<open>
  \<^verbatim>\<open>
  print(f"\n---\n... Placing Order for {args.qty} {args.symbol}...\n---")
  try:
      order = api.submit_order(symbol=args.symbol, qty=args.qty, side=args.side,
                               type=args.type, time_in_force=args.time_in_force)
      print(f"... Order submitted successfully!")
      print(f"    ID:           {order.id}")
      ...
  except APIError as e:
      print(f"... API Error placing order: {e}")
  \<close>
  The function has no \<open>return\<close>: it gives \<open>None\<close>.
\<close>

definition place_order :: "api \<Rightarrow> order_args \<Rightarrow> 'f pyval io" where
  "place_order api args =
     io_bind (print (nl @ ''---'' @ nl @ shopping_cart @ '' Placing Order for '' @
                     str_int (args_qty args) @ '' '' @ args_symbol args @ ''...'' @ nl @ ''---'')) (\<lambda>_.
     io_try
       (io_bind (provider_call
                   (SubmitOrder (args_symbol args) (args_qty args) (args_side args)
                      (args_type args) (args_time_in_force args))
                   (api_submit_order api (args_symbol args) (args_qty args) (args_side args)
                      (args_type args) (args_time_in_force args))) (\<lambda>order.
        io_bind (print (check_mark @ '' Order submitted successfully!'')) (\<lambda>_.
        io_bind (print (''    ID:           '' @ str_opt (order_id order))) (\<lambda>_.
        io_bind (print (''    Symbol:       '' @ str_opt (order_symbol order))) (\<lambda>_.
        io_bind (print (''    Qty:          '' @ str_opt (order_qty order))) (\<lambda>_.
        io_bind (print (''    Side:         '' @ str_opt (order_side order))) (\<lambda>_.
        io_bind (print (''    Type:         '' @ str_opt (order_type order))) (\<lambda>_.
        io_bind (print (''    Status:       '' @ str_opt (order_status order))) (\<lambda>_.
        io_return PNone)))))))))
       (\<lambda>e. case e of
          APIError m \<Rightarrow> Some (io_bind (print (red_circle @ '' API Error placing order: '' @ str_exn e))
                                (\<lambda>_. io_return PNone))
        | _ \<Rightarrow> None))"

definition order_line :: "order \<Rightarrow> exn + string" where
  "order_line order =
     fstring [format_str (py_or (order_id order) ''N/A'') ''<30'', lit '' '',
              format_str (py_or (order_symbol order) ''N/A'') ''<10'', lit '' '',
              format_str (py_or (order_qty order) ''N/A'') ''<8'', lit '' '',
              format_str (py_or (order_side order) ''N/A'') ''<8'', lit '' '',
              format_str (py_or (order_type order) ''N/A'') ''<10'', lit '' '',
              format_str (py_or (order_status order) ''N/A'') ''<12'']"

fun print_order_lines :: "order list \<Rightarrow> unit io" where
  "print_order_lines [] = io_return ()"
| "print_order_lines (order # rest) =
     io_bind (io_lift (order_line order)) (\<lambda>line.
     io_bind (print line) (\<lambda>_.
     print_order_lines rest))"

text \<open>
  \<^verbatim>\<open>
  print(f"\n---\n... Fetching Orders (Status: {args.status})...\n---")
  try:
      orders = api.list_orders(status=args.status, limit=args.limit)
      if not orders:
          print(f"No orders found with status '{args.status}'.")
          return
      print(f"{'ID':<30} {'Symbol':<10} {'Qty':<8} {'Side':<8} {'Type':<10} {'Status':<12}")
      print("-" * 80)
      for order in orders:
          print(...)
  except APIError as e:
      print(f"... API Error listing orders: {e}")
  \<close>
\<close>

definition list_orders :: "api \<Rightarrow> list_args \<Rightarrow> 'f pyval io" where
  "list_orders api args =
     io_bind (print (nl @ ''---'' @ nl @ page_facing_up @ '' Fetching Orders (Status: '' @
                     args_status args @ '')...'' @ nl @ ''---'')) (\<lambda>_.
     io_try
       (io_bind (provider_call (ListOrders (args_status args) (args_limit args))
                   (api_list_orders api (args_status args) (args_limit args))) (\<lambda>orders.
        if orders = [] then
          io_bind (print (''No orders found with status '' @ [CHR 0x27] @ args_status args @
                          [CHR 0x27] @ ''.'')) (\<lambda>_.
          io_return PNone)
        else
          io_bind (print_f [format_str ''ID'' ''<30'', lit '' '',
                            format_str ''Symbol'' ''<10'', lit '' '',
                            format_str ''Qty'' ''<8'', lit '' '',
                            format_str ''Side'' ''<8'', lit '' '',
                            format_str ''Type'' ''<10'', lit '' '',
                            format_str ''Status'' ''<12'']) (\<lambda>_.
          io_bind (print (replicate 80 (CHR ''-''))) (\<lambda>_.
          io_bind (print_order_lines orders) (\<lambda>_.
          io_return PNone)))))
       (\<lambda>e. case e of
          APIError m \<Rightarrow> Some (io_bind (print (red_circle @ '' API Error listing orders: '' @ str_exn e))
                                (\<lambda>_. io_return PNone))
        | _ \<Rightarrow> None))"



section \<open>The HTTP front-ends\<close>

text \<open>
  A view returns \<open>jsonify(data), status\<close>: the JSON body is the value itself, the
  status is a number.

  \<open>Alpaca.py\<close>:
  \<^verbatim>\<open>
  data = get_account_status_data(api)
  if "error" in data:
      return jsonify(data), 500
  return jsonify(data), 200
  \<close>
  and the same with \<open>list_positions_data\<close> for the positions route.
\<close>

type_synonym 'f response = "'f pyval \<times> nat"

definition Alpaca_get_account_info :: "'f float_impl \<Rightarrow> api \<Rightarrow> 'f response io" where
  "Alpaca_get_account_info fl api =
     io_bind (get_account_status_data fl api) (\<lambda>data.
     io_bind (io_lift (py_in ''error'' data)) (\<lambda>err.
     if err then io_return (data, 500) else io_return (data, 200)))"

definition Alpaca_get_positions :: "'f float_impl \<Rightarrow> api \<Rightarrow> 'f response io" where
  "Alpaca_get_positions fl api =
     io_bind (list_positions_data fl api) (\<lambda>data.
     io_bind (io_lift (py_in ''error'' data)) (\<lambda>err.
     if err then io_return (data, 500) else io_return (data, 200)))"

definition Alpaca_get_screen_stocks :: "'f response io" where
  "Alpaca_get_screen_stocks = io_return (PDict [(''stocks'', PList [])], 200)"

text \<open>
  \<open>api.py\<close>:
  \<^verbatim>\<open>
  try:
      account_data = get_account_status_data(trading_client)
      return jsonify(account_data), 200
  except Exception as e:
      return jsonify({"error": str(e)}), 500
  \<close>
  and the same with \<open>list_positions_data\<close> for the positions route.
\<close>

definition except_Exception :: "exn \<Rightarrow> 'f response io option" where
  "except_Exception e =
     (if is_Exception e then Some (io_return (PDict [(''error'', PStr (str_exn e))], 500))
      else None)"

definition api_py_get_account_info :: "'f float_impl \<Rightarrow> api \<Rightarrow> 'f response io" where
  "api_py_get_account_info fl trading_client =
     io_try
       (io_bind (get_account_status_data fl trading_client) (\<lambda>account_data.
        io_return (account_data, 200)))
       except_Exception"

definition api_py_get_positions :: "'f float_impl \<Rightarrow> api \<Rightarrow> 'f response io" where
  "api_py_get_positions fl trading_client =
     io_try
       (io_bind (list_positions_data fl trading_client) (\<lambda>positions_list.
        io_return (positions_list, 200)))
       except_Exception"

section \<open>Loading the modules\<close>

text \<open>
  The names that \<open>alpaca_cli.py\<close> binds at its top level: its imports and its
  function definitions, in the order of the file.
\<close>

definition alpaca_cli_bindings :: "string list" where
  "alpaca_cli_bindings =
     [''os'', ''sys'', ''argparse'', ''json'', ''REST'', ''APIError'', ''URL'', ''load_dotenv'',
      ''setup_api_client'', ''get_account_status_data'', ''list_positions_data'',
      ''get_account_status'', ''list_positions'', ''place_order'', ''list_orders'', ''main'']"

text \<open>
  \<open>from m import n1, n2, ...\<close>: the names are looked up in the module one after the
  other, and the first one the module does not bind raises \<open>ImportError\<close>.
\<close>

fun import_from :: "string \<Rightarrow> string list \<Rightarrow> string list \<Rightarrow> exn + unit" where
  "import_from m bound [] = Inr ()"
| "import_from m bound (n # ns) =
     (if n \<in> set bound then import_from m bound ns
      else Inl (ImportError (''cannot import name '' @ py_repr n @ '' from '' @ py_repr m)))"

definition Alpaca_py_import :: "exn + unit" where
  "Alpaca_py_import =
     import_from ''alpaca_cli'' alpaca_cli_bindings
       [''setup_api_client'', ''get_account_status_data'', ''list_positions_data'']"

definition api_py_import :: "exn + unit" where
  "api_py_import =
     import_from ''alpaca_cli'' alpaca_cli_bindings
       [''setup_api_client_from_env'', ''get_account_status_data'', ''list_positions_data'']"

text \<open>
  A server started from a module and asked for one route. The module body runs first:
  its import from \<open>alpaca_cli\<close>, then the construction of the client; only then can a
  view run. In \<open>api.py\<close> the client would come from the name the import asks for;
  \<open>make_client\<close> stands for whatever that name would do.
\<close>

datatype route = Route_account_info | Route_positions

definition Alpaca_py_serve ::
    "'f float_impl \<Rightarrow> (credentials \<Rightarrow> api) \<Rightarrow> environ \<Rightarrow> route \<Rightarrow> 'f response io" where
  "Alpaca_py_serve fl REST env r =
     io_bind (io_lift Alpaca_py_import) (\<lambda>_.
     io_bind (setup_api_client REST env) (\<lambda>api.
     case r of
       Route_account_info \<Rightarrow> Alpaca_get_account_info fl api
     | Route_positions \<Rightarrow> Alpaca_get_positions fl api))"

definition api_py_serve :: "'f float_impl \<Rightarrow> api io \<Rightarrow> route \<Rightarrow> 'f response io" where
  "api_py_serve fl make_client r =
     io_bind (io_lift api_py_import) (\<lambda>_.
     io_bind make_client (\<lambda>trading_client.
     case r of
       Route_account_info \<Rightarrow> api_py_get_account_info fl trading_client
     | Route_positions \<Rightarrow> api_py_get_positions fl trading_client))"

section \<open>A float type to run the model on\<close>

text \<open>
  For evaluating the model on concrete inputs, floats are taken to be exact decimal
  fractions. \<open>decimal_of_str\<close> reads a plain decimal literal (sign, digits, point,
  digits) and rejects every other text; \<open>float\<close> itself accepts more (exponents,
  blanks around the number, \<open>inf\<close>, \<open>nan\<close>) and rounds to binary. No rendering is
  provided: the renderer gives the empty text.
\<close>

definition decimal_of_str :: "string \<Rightarrow> rat option" where
  "decimal_of_str s =
     (let body = (if take 1 s = ''-'' \<or> take 1 s = ''+'' then drop 1 s else s);
          ip = takeWhile is_digit body;
          rest = dropWhile is_digit body;
          fp = (if take 1 rest = ''.'' then drop 1 rest else rest)
      in if ip = [] \<and> fp = [] then None
         else if list_all is_digit fp
           then Some ((if take 1 s = ''-'' then - 1 else 1) *
                      of_nat (nat_of_digits (ip @ fp)) / 10 ^ length fp)
         else None)"

definition decimal_floats :: "rat float_impl" where
  "decimal_floats =
     \<lparr>float_of_str = decimal_of_str,
      float_times = (\<lambda>x n. x * of_int n),
      float_truth = (\<lambda>x. x \<noteq> 0),
      float_render = (\<lambda>fs x. [])\<rparr>"

text \<open>A provider where every call raises \<open>e\<close>.\<close>

definition raising_api :: "exn \<Rightarrow> api" where
  "raising_api e =
     \<lparr>api_get_account = Inl e,
      api_list_positions = Inl e,
      api_submit_order = (\<lambda>symbol qty side ty tif. Inl e),
      api_list_orders = (\<lambda>status limit. Inl e)\<rparr>"

text \<open>A provider with one account and one position, whose texts are the parameters.\<close>

definition sample_account :: "string \<Rightarrow> account" where
  "sample_account pv =
     \<lparr>account_id = ''a1'', account_status = ''ACTIVE'', account_currency = ''USD'',
      account_portfolio_value = pv, account_buying_power = ''200.50'',
      account_cash = ''50'', account_equity = ''100.25'',
      account_pattern_day_trader = False\<rparr>"

definition sample_position :: "string \<Rightarrow> position" where
  "sample_position plpc =
     \<lparr>position_symbol = ''AAPL'', position_qty = ''10'', position_market_value = ''1500'',
      position_avg_entry_price = ''142.5'', position_current_price = ''150'',
      position_unrealized_pl = ''75'', position_unrealized_plpc = plpc\<rparr>"

definition sample_order :: order where
  "sample_order =
     \<lparr>order_id = Some ''o1'', order_symbol = Some ''AAPL'', order_qty = Some ''10'',
      order_side = Some ''buy'', order_type = Some ''market'', order_status = None\<rparr>"

definition sample_api :: "string \<Rightarrow> string \<Rightarrow> api" where
  "sample_api pv plpc =
     \<lparr>api_get_account = Inr (sample_account pv),
      api_list_positions = Inr [sample_position plpc],
      api_submit_order = (\<lambda>symbol qty side ty tif. Inr sample_order),
      api_list_orders = (\<lambda>status limit. Inr [sample_order])\<rparr>"

definition sample_order_args :: order_args where
  "sample_order_args =
     \<lparr>args_symbol = ''AAPL'', args_qty = 10, args_side = ''buy'', args_type = ''market'',
      args_time_in_force = ''gtc''\<rparr>"






definition w0 :: world where
  "w0 = \<lparr>calls = [], stdout = []\<rparr>"

section \<open>How the core functions answer\<close>

lemmas io_defs = io_return_def io_raise_def io_lift_def io_bind_def io_try_def print_def
  provider_call_def

lemmas fixture_defs = decimal_floats_def decimal_of_str_def is_digit_def nat_of_digits_def
  sample_api_def sample_account_def sample_position_def sample_order_def sample_order_args_def
  raising_api_def w0_def

lemma account_dict_parsed:
  "float_of_str fl (account_portfolio_value a) = Some pv \<Longrightarrow>
   float_of_str fl (account_buying_power a) = Some bp \<Longrightarrow>
   float_of_str fl (account_cash a) = Some c \<Longrightarrow>
   float_of_str fl (account_equity a) = Some eq \<Longrightarrow>
   account_dict fl a =
     Inr (PDict
       [(''id'', PStr (account_id a)),
        (''status'', PStr (account_status a)),
        (''currency'', PStr (account_currency a)),
        (''portfolio_value'', PFloat pv),
        (''buying_power'', PFloat bp),
        (''cash'', PFloat c),
        (''equity'', PFloat eq),
        (''pattern_day_trader'', PBool (account_pattern_day_trader a))])"
  by (simp add: account_dict_def sum_bind_def py_float_def)

lemma account_dict_Inr:
  "account_dict fl a = Inr d \<Longrightarrow>
   \<exists>pv bp c eq. d = PDict
       [(''id'', PStr (account_id a)),
        (''status'', PStr (account_status a)),
        (''currency'', PStr (account_currency a)),
        (''portfolio_value'', PFloat pv),
        (''buying_power'', PFloat bp),
        (''cash'', PFloat c),
        (''equity'', PFloat eq),
        (''pattern_day_trader'', PBool (account_pattern_day_trader a))]"
  by (auto simp add: account_dict_def sum_bind_def py_float_def split: option.splits)

lemma account_dict_Inl:
  "account_dict fl a = Inl e \<Longrightarrow>
   \<exists>s \<in> set [account_portfolio_value a, account_buying_power a, account_cash a,
               account_equity a].
     float_of_str fl s = None \<and>
     e = ValueError (''could not convert string to float: '' @ py_repr s)"
  by (auto simp add: account_dict_def sum_bind_def py_float_def split: option.splits)

lemma account_dict_unparsed:
  "s \<in> set [account_portfolio_value a, account_buying_power a, account_cash a,
            account_equity a] \<Longrightarrow>
   float_of_str fl s = None \<Longrightarrow> \<exists>e. account_dict fl a = Inl e"
  by (auto simp add: account_dict_def sum_bind_def py_float_def split: option.splits)

lemma get_account_status_data_APIError:
  "api_get_account api = Inl (APIError m) \<Longrightarrow>
   get_account_status_data fl api w =
     (Inr (PDict [(''error'', PStr m)]), w\<lparr>calls := calls w @ [GetAccount]\<rparr>)"
  by (simp add: get_account_status_data_def io_defs except_APIError_def)

lemma get_account_status_data_other:
  "api_get_account api = Inl e \<Longrightarrow> \<not> is_APIError e \<Longrightarrow>
   get_account_status_data fl api w = (Inl e, w\<lparr>calls := calls w @ [GetAccount]\<rparr>)"
  by (cases e) (simp_all add: get_account_status_data_def io_defs except_APIError_def)

lemma get_account_status_data_dict:
  "api_get_account api = Inr a \<Longrightarrow> account_dict fl a = Inr d \<Longrightarrow>
   get_account_status_data fl api w = (Inr d, w\<lparr>calls := calls w @ [GetAccount]\<rparr>)"
  by (simp add: get_account_status_data_def io_defs)

lemma get_account_status_data_raise:
  assumes "api_get_account api = Inr a" and "account_dict fl a = Inl e"
  shows "get_account_status_data fl api w = (Inl e, w\<lparr>calls := calls w @ [GetAccount]\<rparr>)"
proof -
  from assms(2) obtain s where "e = ValueError (''could not convert string to float: '' @ py_repr s)"
    using account_dict_Inl by blast
  with assms show ?thesis
    by (simp add: get_account_status_data_def io_defs except_APIError_def)
qed

lemma position_dict_Inr:
  "position_dict fl p = Inr r \<Longrightarrow>
   \<exists>x. float_of_str fl (position_unrealized_plpc p) = Some x \<and>
       py_getitem r ''unrealized_plpc'' = Inr (PFloat x)"
  by (auto simp add: position_dict_def sum_bind_def py_float_def split: option.splits)

lemma position_dict_Inl:
  "position_dict fl p = Inl e \<Longrightarrow>
   \<exists>s \<in> set [position_qty p, position_market_value p, position_avg_entry_price p,
     position_current_price p, position_unrealized_pl p, position_unrealized_plpc p].
     float_of_str fl s = None \<and>
     e = ValueError (''could not convert string to float: '' @ py_repr s)"
  by (auto simp add: position_dict_def sum_bind_def py_float_def split: option.splits)

lemma position_dict_unparsed:
  "s \<in> set [position_qty p, position_market_value p, position_avg_entry_price p,
     position_current_price p, position_unrealized_pl p, position_unrealized_plpc p] \<Longrightarrow>
   float_of_str fl s = None \<Longrightarrow> \<exists>e. position_dict fl p = Inl e"
  by (auto simp add: position_dict_def sum_bind_def py_float_def split: option.splits)

lemma comprehension_Inr:
  "comprehension f xs = Inr ys \<Longrightarrow> list_all2 (\<lambda>x y. f x = Inr y) xs ys"
  by (induction xs arbitrary: ys) (auto split: sum.splits)

lemma comprehension_Inl:
  "comprehension f xs = Inl e \<Longrightarrow> \<exists>x \<in> set xs. f x = Inl e"
  by (induction xs) (auto split: sum.splits)

lemma comprehension_raises:
  "x \<in> set xs \<Longrightarrow> f x = Inl e \<Longrightarrow> \<exists>e'. comprehension f xs = Inl e'"
  by (induction xs) (auto split: sum.splits)

lemma list_positions_data_APIError:
  "api_list_positions api = Inl (APIError m) \<Longrightarrow>
   list_positions_data fl api w =
     (Inr (PDict [(''error'', PStr m)]), w\<lparr>calls := calls w @ [ListPositions]\<rparr>)"
  by (simp add: list_positions_data_def io_defs except_APIError_def)

lemma list_positions_data_other:
  "api_list_positions api = Inl e \<Longrightarrow> \<not> is_APIError e \<Longrightarrow>
   list_positions_data fl api w = (Inl e, w\<lparr>calls := calls w @ [ListPositions]\<rparr>)"
  by (cases e) (simp_all add: list_positions_data_def io_defs except_APIError_def)

lemma list_positions_data_rows:
  "api_list_positions api = Inr ps \<Longrightarrow> comprehension (position_dict fl) ps = Inr rows \<Longrightarrow>
   list_positions_data fl api w = (Inr (PList rows), w\<lparr>calls := calls w @ [ListPositions]\<rparr>)"
  by (simp add: list_positions_data_def io_defs)

lemma list_positions_data_raise:
  assumes "api_list_positions api = Inr ps" and "comprehension (position_dict fl) ps = Inl e"
  shows "list_positions_data fl api w = (Inl e, w\<lparr>calls := calls w @ [ListPositions]\<rparr>)"
proof -
  from assms(2) obtain p where "position_dict fl p = Inl e"
    using comprehension_Inl by blast
  then obtain s where "e = ValueError (''could not convert string to float: '' @ py_repr s)"
    using position_dict_Inl by blast
  with assms show ?thesis
    by (simp add: list_positions_data_def io_defs except_APIError_def)
qed

lemma list_positions_data_PList:
  assumes "fst (list_positions_data fl api w) = Inr (PList rows)"
  shows "\<exists>ps. api_list_positions api = Inr ps \<and> comprehension (position_dict fl) ps = Inr rows"
proof (cases "api_list_positions api")
  case (Inl e)
  show ?thesis
  proof (cases "is_APIError e")
    case True
    then obtain m where "e = APIError m" by (cases e) simp_all
    with Inl assms show ?thesis by (simp add: list_positions_data_APIError)
  next
    case False
    with Inl assms show ?thesis by (simp add: list_positions_data_other)
  qed
next
  case (Inr ps)
  show ?thesis
  proof (cases "comprehension (position_dict fl) ps")
    case (Inl e)
    with Inr assms show ?thesis by (simp add: list_positions_data_raise)
  next
    case r: (Inr rows')
    with Inr assms show ?thesis by (simp add: list_positions_data_rows)
  qed
qed

lemma get_account_status_data_unparsed:
  assumes a: "api_get_account api = Inr a"
    and s: "s \<in> set [account_portfolio_value a, account_buying_power a, account_cash a,
              account_equity a]" "float_of_str fl s = None"
  shows "\<exists>t \<in> set [account_portfolio_value a, account_buying_power a, account_cash a,
                   account_equity a].
         float_of_str fl t = None \<and>
         get_account_status_data fl api w =
           (Inl (ValueError (''could not convert string to float: '' @ py_repr t)),
            w\<lparr>calls := calls w @ [GetAccount]\<rparr>)"
proof -
  from account_dict_unparsed [OF s] obtain e where e: "account_dict fl a = Inl e"
    by (elim exE)
  from account_dict_Inl [OF e] obtain t
    where t: "t \<in> set [account_portfolio_value a, account_buying_power a, account_cash a,
                account_equity a]" "float_of_str fl t = None"
      "e = ValueError (''could not convert string to float: '' @ py_repr t)"
    by (elim bexE conjE)
  from a e have "get_account_status_data fl api w =
      (Inl e, w\<lparr>calls := calls w @ [GetAccount]\<rparr>)"
    by (rule get_account_status_data_raise)
  with t(2,3) have "float_of_str fl t = None \<and>
         get_account_status_data fl api w =
           (Inl (ValueError (''could not convert string to float: '' @ py_repr t)),
            w\<lparr>calls := calls w @ [GetAccount]\<rparr>)"
    by simp
  with t(1) show ?thesis by (intro bexI [where x = t])
qed

lemma list_positions_data_unparsed:
  assumes ps: "api_list_positions api = Inr ps" and p: "p \<in> set ps"
    and s: "s \<in> set [position_qty p, position_market_value p, position_avg_entry_price p,
               position_current_price p, position_unrealized_pl p,
               position_unrealized_plpc p]" "float_of_str fl s = None"
  shows "\<exists>q \<in> set ps.
         \<exists>t \<in> set [position_qty q, position_market_value q, position_avg_entry_price q,
                     position_current_price q, position_unrealized_pl q,
                     position_unrealized_plpc q].
         float_of_str fl t = None \<and>
         list_positions_data fl api w =
           (Inl (ValueError (''could not convert string to float: '' @ py_repr t)),
            w\<lparr>calls := calls w @ [ListPositions]\<rparr>)"
proof -
  from position_dict_unparsed [OF s] obtain e0 where e0: "position_dict fl p = Inl e0"
    by (elim exE)
  from comprehension_raises [where f = "position_dict fl", OF p e0] obtain e
    where e: "comprehension (position_dict fl) ps = Inl e"
    by (elim exE)
  with ps have r: "list_positions_data fl api w =
      (Inl e, w\<lparr>calls := calls w @ [ListPositions]\<rparr>)"
    by (rule list_positions_data_raise)
  from comprehension_Inl [where f = "position_dict fl", OF e] obtain q where q: "q \<in> set ps" "position_dict fl q = Inl e"
    by (elim bexE)
  from position_dict_Inl [OF q(2)] obtain t
    where t: "t \<in> set [position_qty q, position_market_value q, position_avg_entry_price q,
                     position_current_price q, position_unrealized_pl q,
                     position_unrealized_plpc q]" "float_of_str fl t = None"
      "e = ValueError (''could not convert string to float: '' @ py_repr t)"
    by (elim bexE conjE)
  from r t(2,3) have "float_of_str fl t = None \<and>
         list_positions_data fl api w =
           (Inl (ValueError (''could not convert string to float: '' @ py_repr t)),
            w\<lparr>calls := calls w @ [ListPositions]\<rparr>)"
    by simp
  with t(1) have "\<exists>t \<in> set [position_qty q, position_market_value q, position_avg_entry_price q,
                     position_current_price q, position_unrealized_pl q,
                     position_unrealized_plpc q].
         float_of_str fl t = None \<and>
         list_positions_data fl api w =
           (Inl (ValueError (''could not convert string to float: '' @ py_repr t)),
            w\<lparr>calls := calls w @ [ListPositions]\<rparr>)"
    by (intro bexI [where x = t])
  with q(1) show ?thesis by (intro bexI [where x = q])
qed

section \<open>How the order commands answer\<close>

lemma place_order_APIError:
  "api_submit_order api (args_symbol args) (args_qty args) (args_side args) (args_type args)
     (args_time_in_force args) = Inl (APIError m) \<Longrightarrow>
   place_order api args w =
     (Inr PNone,
      w\<lparr>calls := calls w @ [SubmitOrder (args_symbol args) (args_qty args) (args_side args)
                               (args_type args) (args_time_in_force args)],
        stdout := stdout w @
          [nl @ ''---'' @ nl @ shopping_cart @ '' Placing Order for '' @ str_int (args_qty args) @
             '' '' @ args_symbol args @ ''...'' @ nl @ ''---'',
           red_circle @ '' API Error placing order: '' @ m]\<rparr>)"
  by (simp add: place_order_def io_defs)

lemma place_order_other:
  "api_submit_order api (args_symbol args) (args_qty args) (args_side args) (args_type args)
     (args_time_in_force args) = Inl e \<Longrightarrow> \<not> is_APIError e \<Longrightarrow>
   fst (place_order api args w) = Inl e"
  by (cases e) (simp_all add: place_order_def io_defs)

lemma list_orders_APIError:
  "api_list_orders api (args_status args) (args_limit args) = Inl (APIError m) \<Longrightarrow>
   list_orders api args w =
     (Inr PNone,
      w\<lparr>calls := calls w @ [ListOrders (args_status args) (args_limit args)],
        stdout := stdout w @
          [nl @ ''---'' @ nl @ page_facing_up @ '' Fetching Orders (Status: '' @ args_status args @
             '')...'' @ nl @ ''---'',
           red_circle @ '' API Error listing orders: '' @ m]\<rparr>)"
  by (simp add: list_orders_def io_defs)

lemma list_orders_other:
  "api_list_orders api (args_status args) (args_limit args) = Inl e \<Longrightarrow> \<not> is_APIError e \<Longrightarrow>
   fst (list_orders api args w) = Inl e"
  by (cases e) (simp_all add: list_orders_def io_defs)

lemma keeps_calls_return: "keeps_calls (io_return x)"
  by (simp add: keeps_calls_def io_return_def)

lemma keeps_calls_raise: "keeps_calls (io_raise e)"
  by (simp add: keeps_calls_def io_raise_def)

lemma keeps_calls_lift: "keeps_calls (io_lift r)"
  by (simp add: keeps_calls_def io_lift_def)

lemma keeps_calls_print: "keeps_calls (print s)"
  by (simp add: keeps_calls_def print_def)

lemma keeps_calls_bind:
  assumes "keeps_calls m" and "\<And>x. keeps_calls (k x)"
  shows "keeps_calls (io_bind m k)"
  unfolding keeps_calls_def
proof
  fix w
  obtain r w' where m: "m w = (r, w')" by (cases "m w")
  with assms(1) have w': "calls w' = calls w"
    by (metis keeps_calls_def snd_conv)
  show "calls (snd (io_bind m k w)) = calls w"
  proof (cases r)
    case (Inl e)
    with m w' show ?thesis by (simp add: io_bind_def)
  next
    case (Inr x)
    from assms(2) have "calls (snd (k x w')) = calls w'"
      by (simp add: keeps_calls_def)
    with Inr m w' show ?thesis by (simp add: io_bind_def)
  qed
qed

lemma keeps_calls_print_f: "keeps_calls (print_f parts)"
  by (simp add: print_f_def keeps_calls_bind keeps_calls_lift keeps_calls_print)

lemma keeps_calls_print_order_lines: "keeps_calls (print_order_lines orders)"
  by (induction orders)
     (simp_all add: keeps_calls_return keeps_calls_bind keeps_calls_lift keeps_calls_print)

lemma calls_try_provider_call:
  assumes k: "\<And>x. keeps_calls (k x)" and h: "\<And>e j. h e = Some j \<Longrightarrow> keeps_calls j"
  shows "calls (snd (io_try (io_bind (provider_call c r) k) h w)) = calls w @ [c]"
proof -
  let ?v = "w\<lparr>calls := calls w @ [c]\<rparr>"
  show ?thesis
  proof (cases r)
    case (Inl e)
    show ?thesis
    proof (cases "h e")
      case None
      with Inl show ?thesis by (simp add: io_defs)
    next
      case (Some j)
      with h have "calls (snd (j ?v)) = calls ?v"
        by (simp add: keeps_calls_def)
      with Inl Some show ?thesis by (simp add: io_defs)
    qed
  next
    case (Inr x)
    obtain r' w' where kx: "k x ?v = (r', w')" by (cases "k x ?v")
    with k have w': "calls w' = calls ?v"
      by (metis keeps_calls_def snd_conv)
    show ?thesis
    proof (cases r')
      case (Inl e)
      show ?thesis
      proof (cases "h e")
        case None
        with Inl Inr kx w' show ?thesis by (simp add: io_defs)
      next
        case (Some j)
        with h have "calls (snd (j w')) = calls w'"
          by (simp add: keeps_calls_def)
        with Inl Inr Some kx w' show ?thesis by (simp add: io_defs)
      qed
    next
      case r'': (Inr y)
      with Inr kx w' show ?thesis by (simp add: io_defs)
    qed
  qed
qed

lemma calls_after_print:
  "calls (snd (k () (w\<lparr>stdout := stdout w @ [s]\<rparr>))) = cs \<Longrightarrow>
   calls (snd (io_bind (print s) k w)) = cs"
  by (simp add: io_bind_def print_def)

lemma list_orders_calls:
  "calls (snd (list_orders api args w)) =
     calls w @ [ListOrders (args_status args) (args_limit args)]"
proof -
  have handler: "keeps_calls j"
    if "(case e of APIError m \<Rightarrow>
           Some (io_bind (print (red_circle @ '' API Error listing orders: '' @ str_exn e))
                   (\<lambda>_. io_return PNone))
         | _ \<Rightarrow> None) = Some j" for e and j :: "'a pyval io"
    using that
    by (cases e) (auto simp add: keeps_calls_bind keeps_calls_print keeps_calls_return)
  show ?thesis
    unfolding list_orders_def
    by (rule calls_after_print, subst calls_try_provider_call)
       (simp_all add: handler keeps_calls_bind keeps_calls_print keeps_calls_print_f
          keeps_calls_print_order_lines keeps_calls_return)
qed

section \<open>How the credential resolver answers\<close>





section \<open>How the account renderer answers\<close>

lemma invalid_account_specifier:
  "parse_format_spec '', .2f'' ''float'' None True =
     Inl (invalid_format_specifier '', .2f'' ''float'')"
  by (simp add: parse_format_spec_def take_integer_def is_digit_def is_alignment_token_def
      is_sign_element_def)

lemma format_float_invalid:
  "format_float fl x '', .2f'' = Inl (invalid_format_specifier '', .2f'' ''float'')"
  by (simp add: format_float_def invalid_account_specifier)



lemma get_account_status_data_shape:
  assumes "get_account_status_data fl api w = (Inr data, w')"
  shows "(\<exists>m. data = PDict [(''error'', PStr m)]) \<or>
     (\<exists>i st cur pv bp c eq pdt. data = PDict
       [(''id'', PStr i),
        (''status'', PStr st),
        (''currency'', PStr cur),
        (''portfolio_value'', PFloat pv),
        (''buying_power'', PFloat bp),
        (''cash'', PFloat c),
        (''equity'', PFloat eq),
        (''pattern_day_trader'', PBool pdt)])"
proof (cases "api_get_account api")
  case (Inl e)
  show ?thesis
  proof (cases "is_APIError e")
    case True
    then obtain m where "e = APIError m" by (cases e) simp_all
    with Inl assms have "data = PDict [(''error'', PStr m)]"
      by (simp add: get_account_status_data_APIError)
    then show ?thesis by (intro disjI1 exI)
  next
    case False
    with Inl assms show ?thesis by (simp add: get_account_status_data_other)
  qed
next
  case (Inr a)
  show ?thesis
  proof (cases "account_dict fl a")
    case (Inl e)
    with Inr assms show ?thesis by (simp add: get_account_status_data_raise)
  next
    case d: (Inr d)
    with Inr assms have "data = d" by (simp add: get_account_status_data_dict)
    moreover from account_dict_Inr [OF d] obtain pv bp c eq where "d = PDict
       [(''id'', PStr (account_id a)),
        (''status'', PStr (account_status a)),
        (''currency'', PStr (account_currency a)),
        (''portfolio_value'', PFloat pv),
        (''buying_power'', PFloat bp),
        (''cash'', PFloat c),
        (''equity'', PFloat eq),
        (''pattern_day_trader'', PBool (account_pattern_day_trader a))]"
      by (elim exE)
    ultimately show ?thesis by (intro disjI2 exI) simp
  qed
qed

text \<open>
  A row of the positions table is never written: the first field of \<open>position_line\<close>
  has the same invalid specifier, so the line with the multiplication by 100 is not
  reached either.
\<close>

lemma position_line_raises:
  "py_getitem pos ''unrealized_pl'' = Inr (PFloat x) \<Longrightarrow>
   position_line fl pos = Inl (invalid_format_specifier '', .2f'' ''float'')"
  by (simp add: position_line_def field_def sum_bind_def format_float_invalid)

section \<open>How the HTTP views answer\<close>

lemma position_dict_is_dict:
  "position_dict fl p = Inr r \<Longrightarrow> r \<noteq> PStr k"
  by (auto simp add: position_dict_def sum_bind_def py_float_def split: option.splits)

lemma comprehension_rows_are_dicts:
  assumes "comprehension (position_dict fl) ps = Inr rows"
  shows "PStr k \<notin> set rows"
proof
  assume "PStr k \<in> set rows"
  then obtain n where n: "n < length rows" "rows ! n = PStr k"
    by (auto simp add: in_set_conv_nth)
  from comprehension_Inr [OF assms] n(1)
  have "position_dict fl (ps ! n) = Inr (rows ! n)"
    by (simp add: list_all2_conv_all_nth)
  with n(2) position_dict_is_dict show False
    by metis
qed

lemma list_positions_data_shape:
  assumes "list_positions_data fl api w = (Inr data, w')"
  shows "(\<exists>m. data = PDict [(''error'', PStr m)]) \<or>
     (\<exists>rows. data = PList rows \<and> PStr ''error'' \<notin> set rows)"
proof (cases "api_list_positions api")
  case (Inl e)
  show ?thesis
  proof (cases "is_APIError e")
    case True
    then obtain m where "e = APIError m" by (cases e) simp_all
    with Inl assms have "data = PDict [(''error'', PStr m)]"
      by (simp add: list_positions_data_APIError)
    then show ?thesis by (intro disjI1 exI)
  next
    case False
    with Inl assms show ?thesis by (simp add: list_positions_data_other)
  qed
next
  case (Inr ps)
  show ?thesis
  proof (cases "comprehension (position_dict fl) ps")
    case (Inl e)
    with Inr assms show ?thesis by (simp add: list_positions_data_raise)
  next
    case rows: (Inr rows)
    with Inr assms have "data = PList rows" by (simp add: list_positions_data_rows)
    moreover from rows have "PStr ''error'' \<notin> set rows"
      by (rule comprehension_rows_are_dicts)
    ultimately show ?thesis by (intro disjI2 exI conjI)
  qed
qed

text \<open>
  \<open>Alpaca.py\<close> answers as the spec says: 500 with the error dict, 200 with the
  account or with the list of positions.
\<close>

lemma Alpaca_get_account_info_status:
  assumes "get_account_status_data fl api w = (Inr data, w')"
  shows "Alpaca_get_account_info fl api w =
     (Inr (data, if py_in ''error'' data = Inr True then 500 else 200), w')"
  using get_account_status_data_shape [OF assms] assms
  by (auto simp add: Alpaca_get_account_info_def io_defs)

lemma Alpaca_get_positions_status:
  assumes "list_positions_data fl api w = (Inr data, w')"
  shows "Alpaca_get_positions fl api w =
     (Inr (data, if py_in ''error'' data = Inr True then 500 else 200), w')"
  using list_positions_data_shape [OF assms] assms
  by (auto simp add: Alpaca_get_positions_def io_defs)

text \<open>
  \<open>api.py\<close> answers 200 with whatever the core function returns, an error dict
  included; its 500 is for an exception that leaves the core function.
\<close>

lemma api_py_get_account_info_returned:
  "get_account_status_data fl c w = (Inr data, w') \<Longrightarrow>
   api_py_get_account_info fl c w = (Inr (data, 200), w')"
  by (simp add: api_py_get_account_info_def io_defs)

lemma api_py_get_positions_returned:
  "list_positions_data fl c w = (Inr data, w') \<Longrightarrow>
   api_py_get_positions fl c w = (Inr (data, 200), w')"
  by (simp add: api_py_get_positions_def io_defs)

lemma api_py_get_account_info_raised:
  "get_account_status_data fl c w = (Inl e, w') \<Longrightarrow> is_Exception e \<Longrightarrow>
   api_py_get_account_info fl c w = (Inr (PDict [(''error'', PStr (str_exn e))], 500), w')"
  by (simp add: api_py_get_account_info_def except_Exception_def io_defs)

lemma api_py_get_positions_raised:
  "list_positions_data fl c w = (Inl e, w') \<Longrightarrow> is_Exception e \<Longrightarrow>
   api_py_get_positions fl c w = (Inr (PDict [(''error'', PStr (str_exn e))], 500), w')"
  by (simp add: api_py_get_positions_def except_Exception_def io_defs)

section \<open>Provider failures\<close>

text \<open>
  Claim C1, as the code has it. In each of the four operations an \<open>APIError\<close> raised
  by the provider call is caught and does not propagate. \<open>get_account_status_data\<close>
  and \<open>list_positions_data\<close> return the dict \<open>{"error": m}\<close> with the provider's
  message \<open>m\<close> verbatim. \<open>place_order\<close> and \<open>list_orders\<close> return nothing
  (\<open>None\<close>): they print one line, the error marker followed by \<open>m\<close> verbatim.
\<close>

theorem C1_provider_failure_caught:
  "(api_get_account api = Inl (APIError m) \<longrightarrow>
      get_account_status_data fl api w =
        (Inr (PDict [(''error'', PStr m)]), w\<lparr>calls := calls w @ [GetAccount]\<rparr>)) \<and>
   (api_list_positions api = Inl (APIError m) \<longrightarrow>
      list_positions_data fl api w =
        (Inr (PDict [(''error'', PStr m)]), w\<lparr>calls := calls w @ [ListPositions]\<rparr>)) \<and>
   (api_submit_order api (args_symbol oargs) (args_qty oargs) (args_side oargs)
        (args_type oargs) (args_time_in_force oargs) = Inl (APIError m) \<longrightarrow>
      place_order api oargs w =
        (Inr PNone,
         w\<lparr>calls := calls w @ [SubmitOrder (args_symbol oargs) (args_qty oargs) (args_side oargs)
                                  (args_type oargs) (args_time_in_force oargs)],
           stdout := stdout w @
             [nl @ ''---'' @ nl @ shopping_cart @ '' Placing Order for '' @
                str_int (args_qty oargs) @ '' '' @ args_symbol oargs @ ''...'' @ nl @ ''---'',
              red_circle @ '' API Error placing order: '' @ m]\<rparr>)) \<and>
   (api_list_orders api (args_status largs) (args_limit largs) = Inl (APIError m) \<longrightarrow>
      list_orders api largs w =
        (Inr PNone,
         w\<lparr>calls := calls w @ [ListOrders (args_status largs) (args_limit largs)],
           stdout := stdout w @
             [nl @ ''---'' @ nl @ page_facing_up @ '' Fetching Orders (Status: '' @
                args_status largs @ '')...'' @ nl @ ''---'',
              red_circle @ '' API Error listing orders: '' @ m]\<rparr>))"
  by (simp add: get_account_status_data_APIError list_positions_data_APIError
      place_order_APIError list_orders_APIError)

theorem C1_provider_failure_caught_witness:
  "get_account_status_data decimal_floats (raising_api (APIError ''insufficient buying power'')) w0 =
     (Inr (PDict [(''error'', PStr ''insufficient buying power'')]),
      \<lparr>calls = [GetAccount], stdout = []\<rparr>) \<and>
   list_positions_data decimal_floats (raising_api (APIError ''insufficient buying power'')) w0 =
     (Inr (PDict [(''error'', PStr ''insufficient buying power'')]),
      \<lparr>calls = [ListPositions], stdout = []\<rparr>) \<and>
   (place_order (raising_api (APIError ''insufficient buying power'')) sample_order_args w0 ::
      (exn + rat pyval) \<times> world) =
     (Inr PNone,
      \<lparr>calls = [SubmitOrder ''AAPL'' 10 ''buy'' ''market'' ''gtc''],
       stdout = [nl @ ''---'' @ nl @ shopping_cart @ '' Placing Order for 10 AAPL...'' @ nl @ ''---'',
                 red_circle @ '' API Error placing order: insufficient buying power'']\<rparr>) \<and>
   (list_orders (raising_api (APIError ''insufficient buying power''))
      \<lparr>args_status = ''open'', args_limit = 50\<rparr> w0 :: (exn + rat pyval) \<times> world) =
     (Inr PNone,
      \<lparr>calls = [ListOrders ''open'' 50],
       stdout = [nl @ ''---'' @ nl @ page_facing_up @ '' Fetching Orders (Status: open)...'' @ nl @ ''---'',
                 red_circle @ '' API Error listing orders: insufficient buying power'']\<rparr>)"
proof -
  let ?api = "raising_api (APIError ''insufficient buying power'')"
  let ?largs = "\<lparr>args_status = ''open'', args_limit = 50\<rparr>"
  note caught = C1_provider_failure_caught [of ?api "''insufficient buying power''"
      decimal_floats w0 sample_order_args ?largs]
  have ten: "str_int 10 = ''10''"
    by code_simp
  have h1: "api_get_account ?api = Inl (APIError ''insufficient buying power'')"
    and h2: "api_list_positions ?api = Inl (APIError ''insufficient buying power'')"
    and h3: "api_submit_order ?api (args_symbol sample_order_args) (args_qty sample_order_args)
        (args_side sample_order_args) (args_type sample_order_args)
        (args_time_in_force sample_order_args) = Inl (APIError ''insufficient buying power'')"
    and h4: "api_list_orders ?api (args_status ?largs) (args_limit ?largs) =
        Inl (APIError ''insufficient buying power'')"
    by (simp_all add: raising_api_def)
  have r1: "get_account_status_data decimal_floats ?api w0 =
     (Inr (PDict [(''error'', PStr ''insufficient buying power'')]),
      \<lparr>calls = [GetAccount], stdout = []\<rparr>)"
    unfolding caught [THEN conjunct1, rule_format, OF h1]
    by (simp add: w0_def)
  have r2: "list_positions_data decimal_floats ?api w0 =
     (Inr (PDict [(''error'', PStr ''insufficient buying power'')]),
      \<lparr>calls = [ListPositions], stdout = []\<rparr>)"
    unfolding caught [THEN conjunct2, THEN conjunct1, rule_format, OF h2]
    by (simp add: w0_def)
  have r3: "(place_order ?api sample_order_args w0 :: (exn + rat pyval) \<times> world) =
     (Inr PNone,
      \<lparr>calls = [SubmitOrder ''AAPL'' 10 ''buy'' ''market'' ''gtc''],
       stdout = [nl @ ''---'' @ nl @ shopping_cart @ '' Placing Order for 10 AAPL...'' @ nl @ ''---'',
                 red_circle @ '' API Error placing order: insufficient buying power'']\<rparr>)"
    unfolding caught [THEN conjunct2, THEN conjunct2, THEN conjunct1, rule_format, OF h3]
    by (simp add: w0_def sample_order_args_def ten)
  have r4: "(list_orders ?api ?largs w0 :: (exn + rat pyval) \<times> world) =
     (Inr PNone,
      \<lparr>calls = [ListOrders ''open'' 50],
       stdout = [nl @ ''---'' @ nl @ page_facing_up @ '' Fetching Orders (Status: open)...'' @ nl @ ''---'',
                 red_circle @ '' API Error listing orders: insufficient buying power'']\<rparr>)"
    unfolding caught [THEN conjunct2, THEN conjunct2, THEN conjunct2, rule_format, OF h4]
    by (simp add: w0_def)
  from r1 r2 r3 r4 show ?thesis by (intro conjI)
qed

text \<open>
  The claim as the spec words it fails for order placement: with the provider failing
  with \<open>insufficient buying power\<close>, \<open>place_order\<close> returns \<open>None\<close>, which is not
  the value \<open>{"error": "insufficient buying power"}\<close>.
\<close>

theorem C1_place_order_returns_None:
  "fst (place_order (raising_api (APIError ''insufficient buying power'')) sample_order_args w0) =
     (Inr PNone :: exn + rat pyval) \<and>
   fst (place_order (raising_api (APIError ''insufficient buying power'')) sample_order_args w0) \<noteq>
     (Inr (PDict [(''error'', PStr ''insufficient buying power'')]) :: exn + rat pyval)"
  by (simp add: place_order_APIError raising_api_def)

section \<open>The status of an HTTP answer\<close>


section \<open>Unparsable numbers\<close>

text \<open>
  Claim C3, as the code has it. When \<open>float\<close> cannot read one of the four numeric
  texts of the account, \<open>get_account_status_data\<close> raises the \<open>ValueError\<close> of
  \<open>float\<close> for such a text; when it cannot read one of the six numeric texts of some
  position, \<open>list_positions_data\<close> raises it likewise. The exception leaves the
  function: no error dict is returned, and no dict with a zero in it either.
\<close>

theorem C3_unparsable_number_raises:
  "(api_get_account api = Inr a \<and>
    s \<in> set [account_portfolio_value a, account_buying_power a, account_cash a,
              account_equity a] \<and>
    float_of_str fl s = None \<longrightarrow>
      (\<exists>t \<in> set [account_portfolio_value a, account_buying_power a, account_cash a,
                   account_equity a].
         float_of_str fl t = None \<and>
         get_account_status_data fl api w =
           (Inl (ValueError (''could not convert string to float: '' @ py_repr t)),
            w\<lparr>calls := calls w @ [GetAccount]\<rparr>))) \<and>
   (api_list_positions api = Inr ps \<and> p \<in> set ps \<and>
    s' \<in> set [position_qty p, position_market_value p, position_avg_entry_price p,
               position_current_price p, position_unrealized_pl p,
               position_unrealized_plpc p] \<and>
    float_of_str fl s' = None \<longrightarrow>
      (\<exists>q \<in> set ps.
         \<exists>t \<in> set [position_qty q, position_market_value q, position_avg_entry_price q,
                     position_current_price q, position_unrealized_pl q,
                     position_unrealized_plpc q].
         float_of_str fl t = None \<and>
         list_positions_data fl api w =
           (Inl (ValueError (''could not convert string to float: '' @ py_repr t)),
            w\<lparr>calls := calls w @ [ListPositions]\<rparr>)))"
proof (intro conjI impI)
  assume "api_get_account api = Inr a \<and>
    s \<in> set [account_portfolio_value a, account_buying_power a, account_cash a,
              account_equity a] \<and>
    float_of_str fl s = None"
  then show "\<exists>t \<in> set [account_portfolio_value a, account_buying_power a, account_cash a,
                   account_equity a].
         float_of_str fl t = None \<and>
         get_account_status_data fl api w =
           (Inl (ValueError (''could not convert string to float: '' @ py_repr t)),
            w\<lparr>calls := calls w @ [GetAccount]\<rparr>)"
    using get_account_status_data_unparsed [of api a s fl w] by (elim conjE)
next
  assume "api_list_positions api = Inr ps \<and> p \<in> set ps \<and>
    s' \<in> set [position_qty p, position_market_value p, position_avg_entry_price p,
               position_current_price p, position_unrealized_pl p,
               position_unrealized_plpc p] \<and>
    float_of_str fl s' = None"
  then show "\<exists>q \<in> set ps.
         \<exists>t \<in> set [position_qty q, position_market_value q, position_avg_entry_price q,
                     position_current_price q, position_unrealized_pl q,
                     position_unrealized_plpc q].
         float_of_str fl t = None \<and>
         list_positions_data fl api w =
           (Inl (ValueError (''could not convert string to float: '' @ py_repr t)),
            w\<lparr>calls := calls w @ [ListPositions]\<rparr>)"
    using list_positions_data_unparsed [of api ps p s' fl w] by (elim conjE)
qed

theorem C3_unparsable_number_raises_witness:
  "api_get_account (sample_api ''abc'' ''n/a'') = Inr (sample_account ''abc'') \<and>
   api_list_positions (sample_api ''abc'' ''n/a'') = Inr [sample_position ''n/a''] \<and>
   float_of_str decimal_floats ''abc'' = None \<and>
   float_of_str decimal_floats ''n/a'' = None \<and>
   (\<exists>t \<in> set [account_portfolio_value (sample_account ''abc''),
                account_buying_power (sample_account ''abc''),
                account_cash (sample_account ''abc''),
                account_equity (sample_account ''abc'')].
      float_of_str decimal_floats t = None \<and>
      get_account_status_data decimal_floats (sample_api ''abc'' ''n/a'') w0 =
        (Inl (ValueError (''could not convert string to float: '' @ py_repr t)),
         w0\<lparr>calls := calls w0 @ [GetAccount]\<rparr>)) \<and>
   (\<exists>q \<in> set [sample_position ''n/a''].
      \<exists>t \<in> set [position_qty q, position_market_value q, position_avg_entry_price q,
                  position_current_price q, position_unrealized_pl q,
                  position_unrealized_plpc q].
      float_of_str decimal_floats t = None \<and>
      list_positions_data decimal_floats (sample_api ''abc'' ''n/a'') w0 =
        (Inl (ValueError (''could not convert string to float: '' @ py_repr t)),
         w0\<lparr>calls := calls w0 @ [ListPositions]\<rparr>))"
proof -
  have a: "api_get_account (sample_api ''abc'' ''n/a'') = Inr (sample_account ''abc'')"
    and ps: "api_list_positions (sample_api ''abc'' ''n/a'') = Inr [sample_position ''n/a'']"
    by (simp_all add: sample_api_def)
  have abc: "float_of_str decimal_floats ''abc'' = None"
    and na: "float_of_str decimal_floats ''n/a'' = None"
    by (simp_all add: decimal_floats_def decimal_of_str_def is_digit_def)
  have s: "''abc'' \<in> set [account_portfolio_value (sample_account ''abc''),
                account_buying_power (sample_account ''abc''),
                account_cash (sample_account ''abc''),
                account_equity (sample_account ''abc'')]"
    by (simp add: sample_account_def)
  have s': "''n/a'' \<in> set [position_qty (sample_position ''n/a''),
                position_market_value (sample_position ''n/a''),
                position_avg_entry_price (sample_position ''n/a''),
                position_current_price (sample_position ''n/a''),
                position_unrealized_pl (sample_position ''n/a''),
                position_unrealized_plpc (sample_position ''n/a'')]"
    by (simp add: sample_position_def)
  have p: "sample_position ''n/a'' \<in> set [sample_position ''n/a'']"
    by simp
  note raises = C3_unparsable_number_raises [of "sample_api ''abc'' ''n/a''"
      "sample_account ''abc''" "''abc''" decimal_floats w0 "[sample_position ''n/a'']"
      "sample_position ''n/a''" "''n/a''"]
  note r1 = raises [THEN conjunct1, rule_format, OF conjI [OF a conjI [OF s abc]]]
  note r2 = raises [THEN conjunct2, rule_format, OF conjI [OF ps conjI [OF p conjI [OF s' na]]]]
  from a ps abc na r1 r2 show ?thesis by (intro conjI)
qed

text \<open>
  The claim as the spec words it fails: with the portfolio value \<open>abc\<close>, and with the
  fraction \<open>n/a\<close> in a position, the functions raise \<open>ValueError\<close>; they do not
  return a value at all, so no error dict.
\<close>

theorem C3_unparsable_number_is_not_an_error_value:
  "fst (get_account_status_data decimal_floats (sample_api ''abc'' ''0.0532'') w0) =
     Inl (ValueError (''could not convert string to float: '' @ py_repr ''abc'')) \<and>
   fst (list_positions_data decimal_floats (sample_api ''1234.5'' ''n/a'') w0) =
     Inl (ValueError (''could not convert string to float: '' @ py_repr ''n/a''))"
  by (simp add: get_account_status_data_def list_positions_data_def account_dict_def
      position_dict_def sum_bind_def py_float_def except_APIError_def io_defs fixture_defs)

section \<open>Failures that are not provider failures\<close>

text \<open>
  Claim C4. A failure that is not an \<open>APIError\<close> is never caught by a facade
  operation and never turned into an error dict: it leaves the operation as it was
  raised. This holds for a failure of the provider call in each of the four operations,
  and for a failure while the account dict or the position dicts are built (a text
  that \<open>float\<close> cannot read).
\<close>

theorem C4_other_failures_propagate:
  assumes "\<not> is_APIError e"
  shows
  "(api_get_account api = Inl e \<longrightarrow> fst (get_account_status_data fl api w) = Inl e) \<and>
   (api_get_account api = Inr a \<and> account_dict fl a = Inl e \<longrightarrow>
      fst (get_account_status_data fl api w) = Inl e) \<and>
   (api_list_positions api = Inl e \<longrightarrow> fst (list_positions_data fl api w) = Inl e) \<and>
   (api_list_positions api = Inr ps \<and> comprehension (position_dict fl) ps = Inl e \<longrightarrow>
      fst (list_positions_data fl api w) = Inl e) \<and>
   (api_submit_order api (args_symbol oargs) (args_qty oargs) (args_side oargs)
        (args_type oargs) (args_time_in_force oargs) = Inl e \<longrightarrow>
      fst (place_order api oargs w) = Inl e) \<and>
   (api_list_orders api (args_status largs) (args_limit largs) = Inl e \<longrightarrow>
      fst (list_orders api largs w) = Inl e)"
  using assms
  by (simp add: get_account_status_data_other get_account_status_data_raise
      list_positions_data_other list_positions_data_raise place_order_other list_orders_other)

theorem C4_other_failures_propagate_witness:
  "\<not> is_APIError (OtherError ''ConnectionError'' ''timed out'') \<and>
   fst (get_account_status_data decimal_floats
          (raising_api (OtherError ''ConnectionError'' ''timed out'')) w0) =
     Inl (OtherError ''ConnectionError'' ''timed out'') \<and>
   fst (list_positions_data decimal_floats
          (raising_api (OtherError ''ConnectionError'' ''timed out'')) w0) =
     Inl (OtherError ''ConnectionError'' ''timed out'') \<and>
   fst (place_order (raising_api (OtherError ''ConnectionError'' ''timed out''))
          sample_order_args w0) =
     (Inl (OtherError ''ConnectionError'' ''timed out'') :: exn + rat pyval) \<and>
   fst (list_orders (raising_api (OtherError ''ConnectionError'' ''timed out''))
          \<lparr>args_status = ''open'', args_limit = 50\<rparr> w0) =
     (Inl (OtherError ''ConnectionError'' ''timed out'') :: exn + rat pyval) \<and>
   \<not> is_APIError (ValueError (''could not convert string to float: '' @ py_repr ''abc'')) \<and>
   fst (get_account_status_data decimal_floats (sample_api ''abc'' ''abc'') w0) =
     Inl (ValueError (''could not convert string to float: '' @ py_repr ''abc'')) \<and>
   fst (list_positions_data decimal_floats (sample_api ''abc'' ''abc'') w0) =
     Inl (ValueError (''could not convert string to float: '' @ py_repr ''abc''))"
proof -
  let ?e = "OtherError ''ConnectionError'' ''timed out''"
  let ?v = "ValueError (''could not convert string to float: '' @ py_repr ''abc'')"
  let ?largs = "\<lparr>args_status = ''open'', args_limit = 50\<rparr>"
  have e: "\<not> is_APIError ?e" and v: "\<not> is_APIError ?v"
    by simp_all
  note provider = C4_other_failures_propagate [OF e, of "raising_api ?e" decimal_floats w0 _ _
      sample_order_args ?largs]
  note parse = C4_other_failures_propagate [OF v, of "sample_api ''abc'' ''abc''" decimal_floats w0
      "sample_account ''abc''" "[sample_position ''abc'']"]
  have h1: "api_get_account (raising_api ?e) = Inl ?e"
    and h2: "api_list_positions (raising_api ?e) = Inl ?e"
    and h3: "api_submit_order (raising_api ?e) (args_symbol sample_order_args)
        (args_qty sample_order_args) (args_side sample_order_args) (args_type sample_order_args)
        (args_time_in_force sample_order_args) = Inl ?e"
    and h4: "api_list_orders (raising_api ?e) (args_status ?largs) (args_limit ?largs) = Inl ?e"
    by (simp_all add: raising_api_def)
  have h5: "api_get_account (sample_api ''abc'' ''abc'') = Inr (sample_account ''abc'') \<and>
      account_dict decimal_floats (sample_account ''abc'') = Inl ?v"
    by (simp add: account_dict_def sum_bind_def py_float_def fixture_defs)
  have h6: "api_list_positions (sample_api ''abc'' ''abc'') = Inr [sample_position ''abc''] \<and>
      comprehension (position_dict decimal_floats) [sample_position ''abc''] = Inl ?v"
    by (simp add: position_dict_def sum_bind_def py_float_def fixture_defs)
  note r1 = provider [THEN conjunct1, rule_format, OF h1]
  note r2 = provider [THEN conjunct2, THEN conjunct2, THEN conjunct1, rule_format, OF h2]
  note r3 = provider [THEN conjunct2, THEN conjunct2, THEN conjunct2, THEN conjunct2,
      THEN conjunct1, rule_format, OF h3]
  note r4 = provider [THEN conjunct2, THEN conjunct2, THEN conjunct2, THEN conjunct2,
      THEN conjunct2, rule_format, OF h4]
  note r5 = parse [THEN conjunct2, THEN conjunct1, rule_format, OF h5]
  note r6 = parse [THEN conjunct2, THEN conjunct2, THEN conjunct2, THEN conjunct1,
      rule_format, OF h6]
  from e r1 r2 r3 r4 v r5 r6 show ?thesis by (intro conjI)
qed

section \<open>Missing credentials\<close>



section \<open>The names the credential resolver reads\<close>




section \<open>The limit of an order listing\<close>

text \<open>
  Claim C7, as the code has it. \<open>list_orders\<close> issues the provider call with the
  status and the limit of its arguments, whatever integer the limit is: a zero or a
  negative limit is forwarded like any other, and nothing is checked before the call.
\<close>

theorem C7_limit_forwarded_unchanged:
  "calls (snd (list_orders api args w)) =
     calls w @ [ListOrders (args_status args) (args_limit args)]"
  by (rule list_orders_calls)

text \<open>
  The claim as the spec words it fails: with the limit 0, and with the limit -5, the
  call reaches the provider with that limit in it.
\<close>

theorem C7_zero_limit_reaches_provider:
  "calls (snd (list_orders (sample_api ''1'' ''1'') \<lparr>args_status = ''open'', args_limit = 0\<rparr> w0
                :: (exn + rat pyval) \<times> world)) = [ListOrders ''open'' 0] \<and>
   calls (snd (list_orders (sample_api ''1'' ''1'') \<lparr>args_status = ''all'', args_limit = - 5\<rparr> w0
                :: (exn + rat pyval) \<times> world)) = [ListOrders ''all'' (- 5)]"
  by (simp add: list_orders_calls w0_def)

section \<open>Positions keep the provider's fraction\<close>

text \<open>
  Claim C8. Whenever \<open>list_positions_data\<close> returns a sequence of positions, the
  sequence has one dict per position of the provider, in the provider's order, and the
  \<open>unrealized_plpc\<close> entry of each dict is \<open>float\<close> of the provider's text for that
  position: the fraction as sent, with no scaling. Normalization never multiplies: its
  result is the same whatever the multiplication of the float type does. The only
  multiplication by 100 of the program is in \<open>position_line\<close>, the display code.
\<close>

theorem C8_plpc_stored_unscaled:
  "(fst (list_positions_data fl api w) = Inr (PList rows) \<longrightarrow>
     (\<exists>ps. api_list_positions api = Inr ps \<and>
        list_all2 (\<lambda>p r. \<exists>x. float_of_str fl (position_unrealized_plpc p) = Some x \<and>
                          py_getitem r ''unrealized_plpc'' = Inr (PFloat x)) ps rows)) \<and>
   list_positions_data (fl\<lparr>float_times := t\<rparr>) api w = list_positions_data fl api w"
proof (intro conjI impI)
  assume "fst (list_positions_data fl api w) = Inr (PList rows)"
  then obtain ps where ps: "api_list_positions api = Inr ps"
      and rows: "comprehension (position_dict fl) ps = Inr rows"
    using list_positions_data_PList by blast
  from rows have "list_all2 (\<lambda>p r. position_dict fl p = Inr r) ps rows"
    by (rule comprehension_Inr)
  then have "list_all2 (\<lambda>p r. \<exists>x. float_of_str fl (position_unrealized_plpc p) = Some x \<and>
                          py_getitem r ''unrealized_plpc'' = Inr (PFloat x)) ps rows"
    by (rule list_all2_mono) (rule position_dict_Inr)
  with ps show "\<exists>ps. api_list_positions api = Inr ps \<and>
        list_all2 (\<lambda>p r. \<exists>x. float_of_str fl (position_unrealized_plpc p) = Some x \<and>
                          py_getitem r ''unrealized_plpc'' = Inr (PFloat x)) ps rows"
    by blast
next
  have "position_dict (fl\<lparr>float_times := t\<rparr>) = position_dict fl"
    by (rule ext) (simp add: position_dict_def py_float_def)
  then show "list_positions_data (fl\<lparr>float_times := t\<rparr>) api w = list_positions_data fl api w"
    by (simp add: list_positions_data_def)
qed

text \<open>
  The provider's fraction \<open>0.0532\<close> is stored as \<open>0.0532\<close> (the fraction 532/10000),
  not as \<open>5.32\<close>.
\<close>

theorem C8_plpc_stored_unscaled_witness:
  "fst (list_positions_data decimal_floats (sample_api ''1234.5'' ''0.0532'') w0) =
     Inr (PList [PDict [(''symbol'', PStr ''AAPL''), (''qty'', PFloat 10),
        (''market_value'', PFloat 1500), (''avg_entry_price'', PFloat (285 / 2)),
        (''current_price'', PFloat 150), (''unrealized_pl'', PFloat 75),
        (''unrealized_plpc'', PFloat (532 / 10000))]]) \<and>
   (\<exists>ps. api_list_positions (sample_api ''1234.5'' ''0.0532'') = Inr ps \<and>
        list_all2 (\<lambda>p r. \<exists>x. float_of_str decimal_floats (position_unrealized_plpc p) = Some x \<and>
                          py_getitem r ''unrealized_plpc'' = Inr (PFloat x)) ps
          [PDict [(''symbol'', PStr ''AAPL''), (''qty'', PFloat 10),
        (''market_value'', PFloat 1500), (''avg_entry_price'', PFloat (285 / 2)),
        (''current_price'', PFloat 150), (''unrealized_pl'', PFloat 75),
        (''unrealized_plpc'', PFloat (532 / 10000))]])"
proof -
  have h: "fst (list_positions_data decimal_floats (sample_api ''1234.5'' ''0.0532'') w0) =
     Inr (PList [PDict [(''symbol'', PStr ''AAPL''), (''qty'', PFloat 10),
        (''market_value'', PFloat 1500), (''avg_entry_price'', PFloat (285 / 2)),
        (''current_price'', PFloat 150), (''unrealized_pl'', PFloat 75),
        (''unrealized_plpc'', PFloat (532 / 10000))]])"
    by (simp add: list_positions_data_def io_defs position_dict_def sum_bind_def py_float_def
        fixture_defs)
  from C8_plpc_stored_unscaled [THEN conjunct1, rule_format, OF h] h show ?thesis by blast
qed

section \<open>The account command of the command line\<close>




section \<open>Loading \<open>api.py\<close>\<close>

text \<open>
  Claim C10. \<open>alpaca_cli.py\<close> binds \<open>setup_api_client\<close> and does not bind
  \<open>setup_api_client_from_env\<close>. The import at the top of \<open>api.py\<close> therefore
  raises \<open>ImportError\<close>, and a server started from \<open>api.py\<close> ends with that
  error for every route, before any client is made, any provider call issued or any
  view run.
\<close>

theorem C10_api_py_fails_at_import:
  "''setup_api_client_from_env'' \<notin> set alpaca_cli_bindings \<and>
   ''setup_api_client'' \<in> set alpaca_cli_bindings \<and>
   api_py_import =
     Inl (ImportError (''cannot import name '' @ py_repr ''setup_api_client_from_env'' @
                       '' from '' @ py_repr ''alpaca_cli'')) \<and>
   api_py_serve fl make_client r w =
     (Inl (ImportError (''cannot import name '' @ py_repr ''setup_api_client_from_env'' @
                        '' from '' @ py_repr ''alpaca_cli'')), w)"
  by (simp add: api_py_serve_def api_py_import_def alpaca_cli_bindings_def io_defs)

end
